theory Spec2Isabelle
  imports Main "HOL-Library.Word" "HOL-Library.Sublist"
begin

section \<open>Token-transfer pipeline of the Stacks wallet: preparation, signing dispatch, broadcast\<close>

text \<open>
  The module under study exports three asynchronous functions,
  \<^verbatim>\<open>prepareTransaction\<close>, \<^verbatim>\<open>generateTransaction\<close> and \<^verbatim>\<open>broadcastTransaction\<close>,
  and the table \<^verbatim>\<open>ERRORS\<close>. Every \<^verbatim>\<open>await\<close> is sequential, so an asynchronous call
  is modelled by its outcome: \<open>Inr v\<close> when the promise resolves to \<open>v\<close>, \<open>Inl e\<close> when
  it rejects (or the call throws) with the JavaScript value \<open>e\<close>. The libraries the
  module imports (blockstack, c32check, bitcoinjs-lib, fetch, the two hardware signers)
  are collaborators whose behaviour is a parameter of the model.
\<close>

subsection \<open>Thrown values\<close>

text \<open>
  JavaScript can throw any value, and a promise can be rejected with any value. Four
  kinds are kept apart by what reading their \<^verbatim>\<open>message\<close> property does:
  \<^verbatim>\<open>undefined\<close> and \<^verbatim>\<open>null\<close>, of which no property can be read; a string
  primitive (the module itself rejects with one in \<^verbatim>\<open>broadcastTransaction\<close>), which
  has no \<^verbatim>\<open>message\<close> property; and an \<^verbatim>\<open>Error\<close> object, which has one.
\<close>

datatype thrown = ThrownUndefined | ThrownNull | ThrownString string | ThrownError string

text \<open>
  \<^verbatim>\<open>new Error(m)\<close>: with \<^verbatim>\<open>m\<close> undefined the object gets no own \<^verbatim>\<open>message\<close> and
  reads the prototype's, the empty string.
\<close>

fun newError :: "string option \<Rightarrow> thrown" where
  "newError None = ThrownError []"
| "newError (Some m) = ThrownError m"

text \<open>Sequencing of two steps: the second runs only when the first did not throw.\<close>

definition seq :: "thrown + 'a \<Rightarrow> ('a \<Rightarrow> thrown + 'b) \<Rightarrow> thrown + 'b" where
  "seq m f = (case m of Inl e \<Rightarrow> Inl e | Inr x \<Rightarrow> f x)"

subsection \<open>The error table \<^verbatim>\<open>ERRORS\<close>\<close>

text \<open>
  An error value is an object with the properties \<^verbatim>\<open>error\<close>, \<^verbatim>\<open>type\<close> and
  \<^verbatim>\<open>message\<close>; \<open>extra\<close> holds the numeric properties that an object spread adds
  to a copy of a table entry, in the order they are written.
\<close>

record error_object =
  error :: bool
  type :: string
  message :: string
  extra :: "(string \<times> int) list"

definition INSUFFICIENT_BTC_BALANCE :: error_object where
  "INSUFFICIENT_BTC_BALANCE =
     \<lparr>error = True, type = ''INSUFFICIENT_BTC_BALANCE'',
      message = ''Insufficient Bitcoin balance to fund transaction fees.'', extra = []\<rparr>"

definition PENDING_CONFIRMATIONS :: error_object where
  "PENDING_CONFIRMATIONS =
     \<lparr>error = True, type = ''PENDING_CONFIRMATIONS'',
      message = ''Your BTC is still being confirmed. Please try again later.'', extra = []\<rparr>"

definition INSUFFICIENT_STX_BALANCE :: error_object where
  "INSUFFICIENT_STX_BALANCE =
     \<lparr>error = True, type = ''INSUFFICIENT_STX_BALANCE'',
      message = ''Insufficient Stacks balance.'', extra = []\<rparr>"

definition LOCKED_TOKENS :: error_object where
  "LOCKED_TOKENS =
     \<lparr>error = True, type = ''LOCKED_TOKENS'',
      message = ''Token transfer cannot be safely sent. Tokens have not been unlocked.'',
      extra = []\<rparr>"

text \<open>
  \<^verbatim>\<open>TRANSACTION_ERROR: (message = "Token transfer cannot be safely sent.") => ..\<close>:
  the default applies exactly when the argument is \<^verbatim>\<open>undefined\<close>.
\<close>

definition TRANSACTION_ERROR :: "string option \<Rightarrow> error_object" where
  "TRANSACTION_ERROR m =
     \<lparr>error = True, type = ''TRANSACTION_ERROR'',
      message = (case m of None \<Rightarrow> ''Token transfer cannot be safely sent.'' | Some s \<Rightarrow> s),
      extra = []\<rparr>"

subsection \<open>Chain data\<close>

record utxo =
  "value" :: int
  tx_hash :: string
  tx_output_n :: nat

record account_status =
  lock_transfer_block_id :: int

text \<open>
  Modelled from the spec: \<^verbatim>\<open>sumUTXOs\<close> is imported from \<^verbatim>\<open>@utils/utils\<close>, which is
  not among the sources; the spec gives \<^verbatim>\<open>btcBalance\<close> as the sum of the UTXO values.
\<close>

definition sumUTXOs :: "utxo list \<Rightarrow> int" where
  "sumUTXOs utxos = sum_list (map value utxos)"

text \<open>
  \<^verbatim>\<open>a.compareTo(b)\<close> of the big-integer library: negative, zero or positive as
  \<^verbatim>\<open>a\<close> is below, equal to or above \<^verbatim>\<open>b\<close>.
\<close>

definition compareTo :: "int \<Rightarrow> int \<Rightarrow> int" where
  "compareTo a b = (if a < b then - 1 else if a = b then 0 else 1)"

subsection \<open>Signers\<close>

text \<open>
  \<^verbatim>\<open>Transport\<close> is the HID transport module handed to the Ledger signer. The two
  signer classes come from vendored packages; an instance is the record of its
  constructor arguments.
\<close>

datatype transport = Transport

datatype signer = LedgerSigner string transport | TrezorSigner string string

record wallet_types =
  LEDGER :: string
  TREZOR :: string

subsection \<open>Collaborators\<close>

record request_init =
  "method" :: string
  body :: "(string \<times> string) list"

record response =
  "text" :: "thrown + string"

text \<open>
  Everything the module reaches through its imports and the ambient
  \<^verbatim>\<open>config.network\<close>. \<open>'amt\<close> is whatever the caller passes as \<^verbatim>\<open>amount\<close>
  (\<^verbatim>\<open>toBigInt\<close> of \<^verbatim>\<open>@utils/utils\<close> turns it into a big integer), \<open>'tx\<close> is
  bitcoinjs-lib's parsed transaction. \<^verbatim>\<open>WALLET_TYPES\<close> and \<^verbatim>\<open>PATH\<close> are constants
  of modules that are not among the sources. The last field belongs to the JavaScript
  engine.
\<close>

record ('amt, 'tx) env =
  c32ToB58 :: "string \<Rightarrow> thrown + string"
  toBigInt :: "'amt \<Rightarrow> thrown + int"
  getUTXOs :: "string \<Rightarrow> thrown + utxo list"
  estimateTokenTransfer :: "string \<Rightarrow> string \<Rightarrow> int \<Rightarrow> string \<Rightarrow> nat \<Rightarrow> thrown + int"
  getAccountStatus :: "string \<Rightarrow> string \<Rightarrow> thrown + account_status"
  getAccountBalance :: "string \<Rightarrow> string \<Rightarrow> thrown + int"
  getBlockHeight :: "thrown + int"
  makeTokenTransfer :: "string \<Rightarrow> string \<Rightarrow> int \<Rightarrow> string \<Rightarrow> signer \<Rightarrow> thrown + string"
  WALLET_TYPES :: wallet_types
  PATH :: string
  utxoProviderUrl :: string
  fetch :: "string \<Rightarrow> request_init \<Rightarrow> thrown + response"
  fromHex :: "string \<Rightarrow> thrown + 'tx"
  getHash :: "'tx \<Rightarrow> 8 word list"
  typeErrorMessage :: "thrown \<Rightarrow> string"

text \<open>
  \<^verbatim>\<open>e.message\<close>. Read from \<^verbatim>\<open>undefined\<close> or \<^verbatim>\<open>null\<close> it throws a
  \<^verbatim>\<open>TypeError\<close>, an \<^verbatim>\<open>Error\<close> whose message is the engine's text for that value
  (\<open>typeErrorMessage\<close>); read from a string it is \<^verbatim>\<open>undefined\<close>, here \<open>None\<close>;
  read from an \<^verbatim>\<open>Error\<close> it is its message.
\<close>

definition message_of :: "('amt, 'tx) env \<Rightarrow> thrown \<Rightarrow> thrown + string option" where
  "message_of env e =
     (case e of
        ThrownUndefined \<Rightarrow> Inl (ThrownError (typeErrorMessage env e))
      | ThrownNull \<Rightarrow> Inl (ThrownError (typeErrorMessage env e))
      | ThrownString s \<Rightarrow> Inr None
      | ThrownError msg \<Rightarrow> Inr (Some msg))"

subsection \<open>\<^verbatim>\<open>prepareTransaction\<close>\<close>

record prepared =
  senderBtcAddress :: string
  recipientBtcAddress :: string
  tokenType :: string
  tokenAmount :: int
  utxos :: "utxo list"
  numUTXOs :: nat
  estimate :: int
  btcBalance :: int
  accountStatus :: account_status
  currentAccountBalance :: int
  blockHeight :: int

text \<open>What \<^verbatim>\<open>prepareTransaction\<close> resolves to: an error value or the prepared transfer.\<close>

datatype tx_object = ErrorObject error_object | PreparedTransfer prepared

text \<open>
  The steps run in the order of the source: both address translations, the amount
  conversion, the UTXO read, the fee estimate plus 5500, the balance sum, the three
  account reads, and then the three checks. The parameter \<^verbatim>\<open>walletType\<close> is accepted
  and not used.
\<close>

definition prepareTransaction ::
  "('amt, 'tx) env \<Rightarrow> string \<Rightarrow> string \<Rightarrow> 'amt \<Rightarrow> string \<Rightarrow> string \<Rightarrow> thrown + tx_object" where
  "prepareTransaction env senderAddress recipientAddress amount walletType memo =
     seq (c32ToB58 env senderAddress) (\<lambda>senderBtcAddress.
     seq (c32ToB58 env recipientAddress) (\<lambda>recipientBtcAddress.
     let tokenType = ''STACKS'' in
     seq (toBigInt env amount) (\<lambda>tokenAmount.
     seq (getUTXOs env senderBtcAddress) (\<lambda>utxos.
     let numUTXOs = length utxos in
     seq (estimateTokenTransfer env recipientBtcAddress tokenType tokenAmount memo numUTXOs)
       (\<lambda>raw_estimate.
     let estimate = raw_estimate + 5500;
         btcBalance = sumUTXOs utxos in
     seq (getAccountStatus env senderBtcAddress tokenType) (\<lambda>accountStatus.
     seq (getAccountBalance env senderBtcAddress tokenType) (\<lambda>currentAccountBalance.
     seq (getBlockHeight env) (\<lambda>blockHeight.
       if btcBalance < estimate then
         Inr (ErrorObject (INSUFFICIENT_BTC_BALANCE
           \<lparr>extra := [(''estimate'', estimate), (''btcBalance'', btcBalance),
                      (''difference'', estimate - btcBalance)]\<rparr>))
       else if compareTo currentAccountBalance tokenAmount < 0 then
         Inr (ErrorObject INSUFFICIENT_STX_BALANCE)
       else if lock_transfer_block_id accountStatus > blockHeight then
         Inr (ErrorObject LOCKED_TOKENS)
       else
         Inr (PreparedTransfer
           \<lparr>senderBtcAddress = senderBtcAddress,
            recipientBtcAddress = recipientBtcAddress,
            tokenType = tokenType,
            tokenAmount = tokenAmount,
            utxos = utxos,
            numUTXOs = numUTXOs,
            estimate = estimate,
            btcBalance = btcBalance,
            accountStatus = accountStatus,
            currentAccountBalance = currentAccountBalance,
            blockHeight = blockHeight\<rparr>)))))))))"

subsection \<open>\<^verbatim>\<open>postTransaction\<close> and \<^verbatim>\<open>broadcastTransaction\<close>\<close>

definition postTransaction :: "('amt, 'tx) env \<Rightarrow> string \<Rightarrow> thrown + response" where
  "postTransaction env rawTx =
     (let form = [(''tx'', rawTx)]
      in fetch env (utxoProviderUrl env @ ''/pushtx?cors=true'')
           \<lparr>method = ''POST'', body = form\<rparr>)"

text \<open>
  Strings are byte strings here; \<^verbatim>\<open>toLowerCase\<close> folds the letters A to Z and leaves
  every other character as it is.
\<close>

definition toLowerCaseChar :: "char \<Rightarrow> char" where
  "toLowerCaseChar c =
     (case map_of (zip ''ABCDEFGHIJKLMNOPQRSTUVWXYZ'' ''abcdefghijklmnopqrstuvwxyz'') c of
        None \<Rightarrow> c | Some l \<Rightarrow> l)"

definition toLowerCase :: "string \<Rightarrow> string" where
  "toLowerCase s = map toLowerCaseChar s"

fun startsWith :: "string \<Rightarrow> string \<Rightarrow> bool" where
  "startsWith s [] = True"
| "startsWith [] (p # ps) = False"
| "startsWith (c # cs) (p # ps) = (c = p \<and> startsWith cs ps)"

text \<open>
  \<^verbatim>\<open>s.indexOf(p)\<close>: the least position at which \<^verbatim>\<open>p\<close> occurs in \<^verbatim>\<open>s\<close>, or \<^verbatim>\<open>-1\<close>.
  \<open>indexOfFrom\<close> scans from position \<open>k\<close> of the original string.
\<close>

fun indexOfFrom :: "nat \<Rightarrow> string \<Rightarrow> string \<Rightarrow> int" where
  "indexOfFrom k [] p = (if p = [] then int k else - 1)"
| "indexOfFrom k (c # cs) p =
     (if startsWith (c # cs) p then int k else indexOfFrom (Suc k) cs p)"

definition indexOf :: "string \<Rightarrow> string \<Rightarrow> int" where
  "indexOf s p = indexOfFrom 0 s p"

text \<open>\<^verbatim>\<open>buffer.toString("hex")\<close>: two lower-case hexadecimal digits per byte.\<close>

definition hexDigit :: "nat \<Rightarrow> char" where
  "hexDigit n = ''0123456789abcdef'' ! n"

definition toString_hex :: "8 word list \<Rightarrow> string" where
  "toString_hex bs =
     concat (map (\<lambda>b. [hexDigit (unat b div 16), hexDigit (unat b mod 16)]) bs)"

text \<open>
  The \<^verbatim>\<open>try\<close> block posts the transaction, reads the body and either returns the
  reversed hash in hex or rejects with a string; the handler reads \<^verbatim>\<open>e.message\<close>
  of whatever was thrown inside and throws \<^verbatim>\<open>new Error(e.message)\<close>. The handler
  is not itself guarded, so what the read of \<^verbatim>\<open>e.message\<close> throws leaves the function.
\<close>

definition broadcastTransaction :: "('amt, 'tx) env \<Rightarrow> string \<Rightarrow> thrown + string" where
  "broadcastTransaction env rawTx =
     (case
        seq (postTransaction env rawTx) (\<lambda>response.
        seq (text response) (\<lambda>text.
        let success = (indexOf (toLowerCase text) ''transaction submitted'' \<ge> 0) in
        if success then
          seq (fromHex env rawTx) (\<lambda>tx. Inr (toString_hex (rev (getHash env tx))))
        else
          Inl (ThrownString (''Broadcast transaction failed with message: '' @ text))))
      of Inl e \<Rightarrow> seq (message_of env e) (\<lambda>msg. Inl (newError msg))
       | Inr txid \<Rightarrow> Inr txid)"

subsection \<open>\<^verbatim>\<open>generateTransaction\<close>\<close>

record signed_transaction =
  fee :: int
  rawTx :: string

text \<open>What \<^verbatim>\<open>generateTransaction\<close> resolves to: an error value or \<^verbatim>\<open>{fee, rawTx}\<close>.\<close>

datatype generated = ErrorResult error_object | SignedTransaction signed_transaction

text \<open>
  The whole body sits in \<^verbatim>\<open>try\<close>; the handler reads \<^verbatim>\<open>e.message\<close> and returns
  \<^verbatim>\<open>ERRORS.TRANSACTION_ERROR(e.message)\<close>, and what that read throws leaves the
  function. The test \<^verbatim>\<open>!tx\<close> is never true of an
  object, and \<^verbatim>\<open>tx.error\<close> is true of exactly the error values (lemma
  \<open>prepareTransaction_error_flag\<close> below), so the two tests are the case distinction
  on the result of \<^verbatim>\<open>prepareTransaction\<close>.
\<close>

definition generateTransaction ::
  "('amt, 'tx) env \<Rightarrow> string \<Rightarrow> string \<Rightarrow> 'amt \<Rightarrow> string \<Rightarrow> string \<Rightarrow> thrown + generated" where
  "generateTransaction env senderAddress recipientAddress amount walletType memo =
     (case
        seq (prepareTransaction env senderAddress recipientAddress amount walletType memo)
          (\<lambda>tx. case tx of
             ErrorObject e \<Rightarrow> Inr (ErrorResult e)
           | PreparedTransfer p \<Rightarrow>
               let isLedger = (walletType = LEDGER (WALLET_TYPES env));
                   signer = (if isLedger then LedgerSigner (PATH env) Transport
                             else TrezorSigner (PATH env) (senderBtcAddress p))
               in seq (makeTokenTransfer env (recipientBtcAddress p) (tokenType p)
                         (tokenAmount p) memo signer)
                    (\<lambda>rawTx. Inr (SignedTransaction \<lparr>fee = estimate p, rawTx = rawTx\<rparr>)))
      of Inl e \<Rightarrow>
           seq (message_of env e) (\<lambda>msg. Inr (ErrorResult (TRANSACTION_ERROR msg)))
       | Inr r \<Rightarrow> Inr r)"

section \<open>The chain snapshot\<close>

text \<open>
  The spec's chain snapshot, together with the translated addresses and the amount:
  \<open>reads_snapshot env s r a m p\<close> says that \<open>p\<close> holds exactly what the steps of
  \<^verbatim>\<open>prepareTransaction\<close> obtain from the collaborators for the request
  \<open>(s, r, a, m)\<close>, every one of them answering. The estimate of \<open>p\<close> includes the
  surcharge of 5500.
\<close>

definition reads_snapshot ::
  "('amt, 'tx) env \<Rightarrow> string \<Rightarrow> string \<Rightarrow> 'amt \<Rightarrow> string \<Rightarrow> prepared \<Rightarrow> bool" where
  "reads_snapshot env senderAddress recipientAddress amount memo p =
     (c32ToB58 env senderAddress = Inr (senderBtcAddress p) \<and>
      c32ToB58 env recipientAddress = Inr (recipientBtcAddress p) \<and>
      tokenType p = ''STACKS'' \<and>
      toBigInt env amount = Inr (tokenAmount p) \<and>
      getUTXOs env (senderBtcAddress p) = Inr (utxos p) \<and>
      numUTXOs p = length (utxos p) \<and>
      estimateTokenTransfer env (recipientBtcAddress p) ''STACKS'' (tokenAmount p) memo
        (length (utxos p)) = Inr (estimate p - 5500) \<and>
      btcBalance p = sumUTXOs (utxos p) \<and>
      getAccountStatus env (senderBtcAddress p) ''STACKS'' = Inr (accountStatus p) \<and>
      getAccountBalance env (senderBtcAddress p) ''STACKS'' = Inr (currentAccountBalance p) \<and>
      getBlockHeight env = Inr (blockHeight p))"

section \<open>Scenarios\<close>

text \<open>
  Concrete collaborators for the scenarios of the spec: a wallet whose UTXOs have the
  given values, a fixed raw fee estimate, token balance, unlock height and chain height.
  The address translation rejects the empty address, the relay accepts every
  transaction, the parser knows the one transaction \<open>sample_rawTx\<close> and throws on
  every other string, and a parsed transaction is represented by its hash.
\<close>

text \<open>
  A one-input, one-output transaction in its serialised form, and its hash (the double
  SHA-256 of the serialisation), as bitcoinjs-lib's \<^verbatim>\<open>getHash\<close> returns it.
\<close>

definition sample_rawTx :: string where
  "sample_rawTx =
     ''01000000'' @ ''01'' @
     ''0000000000000000000000000000000000000000000000000000000000000000'' @
     ''ffffffff'' @ ''00'' @ ''ffffffff'' @
     ''01'' @ ''0000000000000000'' @ ''00'' @ ''00000000''"

definition sample_hash :: "8 word list" where
  "sample_hash =
     [0xe1, 0x77, 0xc4, 0x2f, 0x05, 0xa6, 0x59, 0x13, 0x8e, 0x28, 0x08, 0x73, 0x26, 0xb6,
      0x87, 0x50, 0x4d, 0x12, 0x3c, 0x58, 0x34, 0xe2, 0x1a, 0x49, 0xf3, 0x06, 0xa2, 0x4e,
      0xab, 0xd2, 0xb7, 0x2f]"

definition wallet_env :: "int list \<Rightarrow> int \<Rightarrow> int \<Rightarrow> int \<Rightarrow> int \<Rightarrow> (int, 8 word list) env" where
  "wallet_env values raw_estimate balance lock height =
     \<lparr>c32ToB58 = (\<lambda>a. if a = [] then Inl (ThrownError ''Invalid c32check string'')
                      else Inr (''1'' @ a)),
      toBigInt = Inr,
      getUTXOs = (\<lambda>_. Inr (map (\<lambda>v. \<lparr>value = v, tx_hash = ''aa'', tx_output_n = 0\<rparr>) values)),
      estimateTokenTransfer = (\<lambda>_ _ _ _ _. Inr raw_estimate),
      getAccountStatus = (\<lambda>_ _. Inr \<lparr>lock_transfer_block_id = lock\<rparr>),
      getAccountBalance = (\<lambda>_ _. Inr balance),
      getBlockHeight = Inr height,
      makeTokenTransfer = (\<lambda>_ _ _ _ sg.
         case sg of LedgerSigner _ _ \<Rightarrow> Inr ''0100'' | TrezorSigner _ _ \<Rightarrow> Inr ''0200''),
      WALLET_TYPES = \<lparr>LEDGER = ''wallet_types/LEDGER'', TREZOR = ''wallet_types/TREZOR''\<rparr>,
      PATH = ''m/44/5757/0/0/0'',
      utxoProviderUrl = ''https://relay.example'',
      fetch = (\<lambda>_ _. Inr \<lparr>text = Inr ''Transaction submitted. ID: abc''\<rparr>),
      fromHex = (\<lambda>raw. if raw = sample_rawTx then Inr sample_hash
                     else Inl (ThrownError ''Index out of range'')),
      getHash = (\<lambda>tx. tx),
      typeErrorMessage = (\<lambda>_. ''Cannot read property of undefined or null'')\<rparr>"

definition wallet_snapshot :: "int list \<Rightarrow> int \<Rightarrow> int \<Rightarrow> int \<Rightarrow> int \<Rightarrow> prepared" where
  "wallet_snapshot values raw_estimate balance lock height =
     \<lparr>senderBtcAddress = ''1SP2J'', recipientBtcAddress = ''1SP3K'', tokenType = ''STACKS'',
      tokenAmount = 25,
      utxos = map (\<lambda>v. \<lparr>value = v, tx_hash = ''aa'', tx_output_n = 0\<rparr>) values,
      numUTXOs = length values, estimate = raw_estimate + 5500,
      btcBalance = sum_list values,
      accountStatus = \<lparr>lock_transfer_block_id = lock\<rparr>,
      currentAccountBalance = balance, blockHeight = height\<rparr>"

text \<open>A relay that answers \<^verbatim>\<open>Invalid transaction format\<close> to every push.\<close>

definition refusing_env :: "(int, 8 word list) env" where
  "refusing_env = (wallet_env [1500000, 500000] 44500 100 90 120)
     \<lparr>fetch := (\<lambda>_ _. Inr \<lparr>text = Inr ''Invalid transaction format''\<rparr>)\<rparr>"

text \<open>
  Transfer builders that fail: one rejects with a plain string, as a promise rejected
  with a message text does, one throws an \<^verbatim>\<open>Error\<close>, and one rejects with
  \<^verbatim>\<open>undefined\<close>, as a promise rejected without a reason does.
\<close>

definition cancelling_env :: "(int, 8 word list) env" where
  "cancelling_env = (wallet_env [1500000, 500000] 44500 100 90 120)
     \<lparr>makeTokenTransfer := (\<lambda>_ _ _ _ _. Inl (ThrownString ''Action cancelled''))\<rparr>"

definition reasonless_env :: "(int, 8 word list) env" where
  "reasonless_env = (wallet_env [1500000, 500000] 44500 100 90 120)
     \<lparr>makeTokenTransfer := (\<lambda>_ _ _ _ _. Inl ThrownUndefined)\<rparr>"

definition underfunded_env :: "(int, 8 word list) env" where
  "underfunded_env = (wallet_env [1500000, 500000] 44500 100 90 120)
     \<lparr>makeTokenTransfer := (\<lambda>_ _ _ _ _. Inl (ThrownError ''Not enough UTXOs to fund''))\<rparr>"

text \<open>Transfer builders that succeed with one signer variant and throw with the other.\<close>

definition ledger_only :: "string \<Rightarrow> string \<Rightarrow> int \<Rightarrow> string \<Rightarrow> signer \<Rightarrow> thrown + string" where
  "ledger_only rb tt ta mm sg =
     (case sg of LedgerSigner _ _ \<Rightarrow> Inr ''0100''
      | TrezorSigner _ _ \<Rightarrow> Inl (ThrownError ''Trezor signer used''))"

definition trezor_only :: "string \<Rightarrow> string \<Rightarrow> int \<Rightarrow> string \<Rightarrow> signer \<Rightarrow> thrown + string" where
  "trezor_only rb tt ta mm sg =
     (case sg of LedgerSigner _ _ \<Rightarrow> Inl (ThrownError ''Ledger signer used'')
      | TrezorSigner _ _ \<Rightarrow> Inr ''0200'')"

section \<open>Properties\<close>

subsection \<open>Sequencing and the snapshot\<close>

lemma seq_Inr [simp]: "seq (Inr x) f = f x"
  by (simp add: seq_def)

lemma seq_Inl [simp]: "seq (Inl e) f = Inl e"
  by (simp add: seq_def)

lemma seq_eq_Inr: "seq m f = Inr y \<longleftrightarrow> (\<exists>x. m = Inr x \<and> f x = Inr y)"
  by (cases m) simp_all

lemma seq_eq_Inl: "seq m f = Inl e \<longleftrightarrow> m = Inl e \<or> (\<exists>x. m = Inr x \<and> f x = Inl e)"
  by (cases m) auto

lemma message_of_simps [simp]:
  "message_of env ThrownUndefined = Inl (ThrownError (typeErrorMessage env ThrownUndefined))"
  "message_of env ThrownNull = Inl (ThrownError (typeErrorMessage env ThrownNull))"
  "message_of env (ThrownString t) = Inr None"
  "message_of env (ThrownError msg) = Inr (Some msg)"
  by (simp_all add: message_of_def)

lemma message_of_read:
  "e \<noteq> ThrownUndefined \<Longrightarrow> e \<noteq> ThrownNull \<Longrightarrow>
     message_of env e = Inr (case e of ThrownError msg \<Rightarrow> Some msg | _ \<Rightarrow> None)"
  by (cases e) simp_all

lemma message_of_throws:
  "message_of env e = Inl t \<Longrightarrow> (e = ThrownUndefined \<or> e = ThrownNull) \<and>
     t = ThrownError (typeErrorMessage env e)"
  by (cases e) auto

lemma message_of_signing_free [simp]:
  "message_of (env\<lparr>makeTokenTransfer := f\<rparr>) e = message_of env e"
  by (cases e) (simp_all add: message_of_def)

lemma compareTo_neg: "compareTo a b < 0 \<longleftrightarrow> a < b"
  by (simp add: compareTo_def)

lemma prepareTransaction_snapshot:
  assumes "reads_snapshot env s r a m p"
  shows "prepareTransaction env s r a w m =
     Inr (if btcBalance p < estimate p then
            ErrorObject (INSUFFICIENT_BTC_BALANCE
              \<lparr>extra := [(''estimate'', estimate p), (''btcBalance'', btcBalance p),
                         (''difference'', estimate p - btcBalance p)]\<rparr>)
          else if currentAccountBalance p < tokenAmount p then ErrorObject INSUFFICIENT_STX_BALANCE
          else if blockHeight p < lock_transfer_block_id (accountStatus p) then ErrorObject LOCKED_TOKENS
          else PreparedTransfer p)"
proof -
  from assms have reads:
    "c32ToB58 env s = Inr (senderBtcAddress p)"
    "c32ToB58 env r = Inr (recipientBtcAddress p)"
    "toBigInt env a = Inr (tokenAmount p)"
    "getUTXOs env (senderBtcAddress p) = Inr (utxos p)"
    "estimateTokenTransfer env (recipientBtcAddress p) ''STACKS'' (tokenAmount p) m
       (length (utxos p)) = Inr (estimate p - 5500)"
    "getAccountStatus env (senderBtcAddress p) ''STACKS'' = Inr (accountStatus p)"
    "getAccountBalance env (senderBtcAddress p) ''STACKS'' = Inr (currentAccountBalance p)"
    "getBlockHeight env = Inr (blockHeight p)"
    by (simp_all add: reads_snapshot_def)
  from assms have fields:
    "tokenType p = ''STACKS''" "numUTXOs p = length (utxos p)"
    "btcBalance p = sumUTXOs (utxos p)"
    by (simp_all add: reads_snapshot_def)
  have whole: "\<lparr>senderBtcAddress = senderBtcAddress p,
      recipientBtcAddress = recipientBtcAddress p, tokenType = ''STACKS'',
      tokenAmount = tokenAmount p, utxos = utxos p, numUTXOs = length (utxos p),
      estimate = estimate p, btcBalance = sumUTXOs (utxos p),
      accountStatus = accountStatus p, currentAccountBalance = currentAccountBalance p,
      blockHeight = blockHeight p\<rparr> = p"
    using fields by (cases p) simp
  show ?thesis
    unfolding prepareTransaction_def Let_def
    by (simp add: reads compareTo_neg whole fields(3))
qed

lemma prepareTransaction_returns:
  assumes "prepareTransaction env s r a w m = Inr t"
  shows "\<exists>p. reads_snapshot env s r a m p"
proof -
  from assms obtain sb rb ta us re st bal h where
    "c32ToB58 env s = Inr sb" "c32ToB58 env r = Inr rb" "toBigInt env a = Inr ta"
    "getUTXOs env sb = Inr us"
    "estimateTokenTransfer env rb ''STACKS'' ta m (length us) = Inr re"
    "getAccountStatus env sb ''STACKS'' = Inr st"
    "getAccountBalance env sb ''STACKS'' = Inr bal"
    "getBlockHeight env = Inr h"
    unfolding prepareTransaction_def Let_def seq_eq_Inr by blast
  then have "reads_snapshot env s r a m
     \<lparr>senderBtcAddress = sb, recipientBtcAddress = rb, tokenType = ''STACKS'',
      tokenAmount = ta, utxos = us, numUTXOs = length us, estimate = re + 5500,
      btcBalance = sumUTXOs us, accountStatus = st, currentAccountBalance = bal,
      blockHeight = h\<rparr>"
    by (simp add: reads_snapshot_def)
  then show ?thesis ..
qed

lemma reads_snapshot_unique:
  "reads_snapshot env s r a m p \<Longrightarrow> reads_snapshot env s r a m q \<Longrightarrow> p = q"
  by (cases p, cases q) (auto simp add: reads_snapshot_def)

lemma prepareTransaction_signing_free:
  "prepareTransaction (env\<lparr>makeTokenTransfer := f\<rparr>) s r a w m = prepareTransaction env s r a w m"
  by (simp add: prepareTransaction_def)

lemma prepareTransaction_walletType_free:
  "prepareTransaction env s r a w m = prepareTransaction env s r a w' m"
  by (simp add: prepareTransaction_def)

lemma prepareTransaction_error_object:
  assumes "prepareTransaction env s r a w m = Inr (ErrorObject e)"
  shows "error e \<and> (type e = ''INSUFFICIENT_BTC_BALANCE'' \<or>
           e = INSUFFICIENT_STX_BALANCE \<or> e = LOCKED_TOKENS)"
proof -
  from prepareTransaction_returns [OF assms]
  obtain q where q: "reads_snapshot env s r a m q" ..
  from prepareTransaction_snapshot [OF q, of w] assms show ?thesis
    by (auto simp add: INSUFFICIENT_BTC_BALANCE_def INSUFFICIENT_STX_BALANCE_def
        LOCKED_TOKENS_def split: if_splits)
qed

lemma prepareTransaction_error_flag:
  "prepareTransaction env s r a w m = Inr (ErrorObject e) \<Longrightarrow> error e"
  by (simp add: prepareTransaction_error_object)

subsection \<open>The assembler, case by case\<close>

lemma generateTransaction_prepared:
  assumes "prepareTransaction env s r a w m = Inr (PreparedTransfer p)"
  shows "generateTransaction env s r a w m =
     (case makeTokenTransfer env (recipientBtcAddress p) (tokenType p) (tokenAmount p) m
             (if w = LEDGER (WALLET_TYPES env) then LedgerSigner (PATH env) Transport
              else TrezorSigner (PATH env) (senderBtcAddress p)) of
        Inl e \<Rightarrow>
          seq (message_of env e) (\<lambda>msg. Inr (ErrorResult (TRANSACTION_ERROR msg)))
      | Inr raw \<Rightarrow> Inr (SignedTransaction \<lparr>fee = estimate p, rawTx = raw\<rparr>))"
  by (simp add: generateTransaction_def assms Let_def split: sum.splits)

lemma generateTransaction_error:
  "prepareTransaction env s r a w m = Inr (ErrorObject e) \<Longrightarrow>
     generateTransaction env s r a w m = Inr (ErrorResult e)"
  by (simp add: generateTransaction_def)

lemma generateTransaction_thrown:
  "prepareTransaction env s r a w m = Inl e \<Longrightarrow>
     generateTransaction env s r a w m =
       seq (message_of env e) (\<lambda>msg. Inr (ErrorResult (TRANSACTION_ERROR msg)))"
  by (simp add: generateTransaction_def)

lemma generateTransaction_error_result:
  assumes "generateTransaction env s r a w m = Inr (ErrorResult e)"
  shows "prepareTransaction env s r a w m = Inr (ErrorObject e) \<or> (\<exists>x. e = TRANSACTION_ERROR x)"
proof (cases "prepareTransaction env s r a w m")
  case (Inl x)
  from generateTransaction_thrown [OF Inl] assms
  have "seq (message_of env x) (\<lambda>msg. Inr (ErrorResult (TRANSACTION_ERROR msg)))
      = Inr (ErrorResult e)"
    by simp
  then show ?thesis
    by (auto simp add: seq_eq_Inr)
next
  case (Inr t)
  show ?thesis
  proof (cases t)
    case (ErrorObject e')
    with Inr generateTransaction_error [of env s r a w m e'] assms show ?thesis by simp
  next
    case (PreparedTransfer p)
    with Inr have "prepareTransaction env s r a w m = Inr (PreparedTransfer p)" by simp
    from generateTransaction_prepared [OF this] assms
    have "(case makeTokenTransfer env (recipientBtcAddress p) (tokenType p) (tokenAmount p) m
             (if w = LEDGER (WALLET_TYPES env) then LedgerSigner (PATH env) Transport
              else TrezorSigner (PATH env) (senderBtcAddress p)) of
        Inl e \<Rightarrow>
          seq (message_of env e) (\<lambda>msg. Inr (ErrorResult (TRANSACTION_ERROR msg)))
      | Inr raw \<Rightarrow> Inr (SignedTransaction \<lparr>fee = estimate p, rawTx = raw\<rparr>))
      = Inr (ErrorResult e)"
      by simp
    then show ?thesis
      by (auto simp add: seq_eq_Inr split: sum.splits)
  qed
qed

lemma generateTransaction_same_signing:
  assumes "\<And>p. prepareTransaction env s r a w m = Inr (PreparedTransfer p) \<Longrightarrow>
      f (recipientBtcAddress p) (tokenType p) (tokenAmount p) m
        (if w = LEDGER (WALLET_TYPES env) then LedgerSigner (PATH env) Transport
         else TrezorSigner (PATH env) (senderBtcAddress p))
      = makeTokenTransfer env (recipientBtcAddress p) (tokenType p) (tokenAmount p) m
        (if w = LEDGER (WALLET_TYPES env) then LedgerSigner (PATH env) Transport
         else TrezorSigner (PATH env) (senderBtcAddress p))"
  shows "generateTransaction (env\<lparr>makeTokenTransfer := f\<rparr>) s r a w m
           = generateTransaction env s r a w m"
proof (cases "prepareTransaction env s r a w m")
  case (Inl x)
  then have "prepareTransaction (env\<lparr>makeTokenTransfer := f\<rparr>) s r a w m = Inl x"
    by (simp add: prepareTransaction_signing_free)
  from generateTransaction_thrown [OF this] generateTransaction_thrown [OF Inl]
  show ?thesis by simp
next
  case (Inr t)
  show ?thesis
  proof (cases t)
    case (ErrorObject e)
    with Inr have old: "prepareTransaction env s r a w m = Inr (ErrorObject e)" by simp
    then have "prepareTransaction (env\<lparr>makeTokenTransfer := f\<rparr>) s r a w m
        = Inr (ErrorObject e)"
      by (simp add: prepareTransaction_signing_free)
    from generateTransaction_error [OF this] generateTransaction_error [OF old]
    show ?thesis by simp
  next
    case (PreparedTransfer p)
    with Inr have old: "prepareTransaction env s r a w m = Inr (PreparedTransfer p)" by simp
    then have "prepareTransaction (env\<lparr>makeTokenTransfer := f\<rparr>) s r a w m
        = Inr (PreparedTransfer p)"
      by (simp add: prepareTransaction_signing_free)
    from generateTransaction_prepared [OF this] generateTransaction_prepared [OF old]
      assms [OF old]
    show ?thesis
      by (cases "w = LEDGER (WALLET_TYPES env)") (simp_all split: sum.splits)
  qed
qed

lemma generateTransaction_ledger_only:
  assumes "w = LEDGER (WALLET_TYPES env)"
    and "\<forall>rb tt ta mm pa tr. f rb tt ta mm (LedgerSigner pa tr)
           = makeTokenTransfer env rb tt ta mm (LedgerSigner pa tr)"
  shows "generateTransaction (env\<lparr>makeTokenTransfer := f\<rparr>) s r a w m
           = generateTransaction env s r a w m"
  by (rule generateTransaction_same_signing) (simp add: assms)

lemma generateTransaction_trezor_only:
  assumes "w \<noteq> LEDGER (WALLET_TYPES env)"
    and "\<forall>rb tt ta mm pa ad. f rb tt ta mm (TrezorSigner pa ad)
           = makeTokenTransfer env rb tt ta mm (TrezorSigner pa ad)"
  shows "generateTransaction (env\<lparr>makeTokenTransfer := f\<rparr>) s r a w m
           = generateTransaction env s r a w m"
  by (rule generateTransaction_same_signing) (simp add: assms)

lemma generateTransaction_walletType:
  assumes "(w = LEDGER (WALLET_TYPES env)) = (w' = LEDGER (WALLET_TYPES env))"
  shows "generateTransaction env s r a w m = generateTransaction env s r a w' m"
proof -
  note same = prepareTransaction_walletType_free [of env s r a w' m w]
  show ?thesis
  proof (cases "prepareTransaction env s r a w m")
    case (Inl x)
    with same have "prepareTransaction env s r a w' m = Inl x" by simp
    from generateTransaction_thrown [OF this] generateTransaction_thrown [OF Inl]
    show ?thesis by simp
  next
    case (Inr t)
    show ?thesis
    proof (cases t)
      case (ErrorObject e)
      with Inr have old: "prepareTransaction env s r a w m = Inr (ErrorObject e)" by simp
      with same have "prepareTransaction env s r a w' m = Inr (ErrorObject e)" by simp
      from generateTransaction_error [OF this] generateTransaction_error [OF old]
      show ?thesis by simp
    next
      case (PreparedTransfer p)
      with Inr have old: "prepareTransaction env s r a w m = Inr (PreparedTransfer p)" by simp
      with same have "prepareTransaction env s r a w' m = Inr (PreparedTransfer p)" by simp
      from generateTransaction_prepared [OF this] generateTransaction_prepared [OF old] assms
      show ?thesis by simp
    qed
  qed
qed

subsection \<open>Substring search and the broadcaster\<close>

lemma startsWith_prefix: "startsWith s p \<longleftrightarrow> prefix p s"
  by (induction s p rule: startsWith.induct) auto

lemma indexOfFrom_nonneg: "0 \<le> indexOfFrom k s p \<longleftrightarrow> sublist p s"
proof (induction s arbitrary: k)
  case Nil
  then show ?case by simp
next
  case (Cons c cs)
  show ?case
  proof (cases "startsWith (c # cs) p")
    case True
    then have "prefix p (c # cs)" by (simp add: startsWith_prefix)
    then have "sublist p (c # cs)" by (simp add: sublist_Cons_right)
    with True show ?thesis by simp
  next
    case False
    then have "\<not> prefix p (c # cs)" by (simp add: startsWith_prefix)
    with False Cons.IH [of "Suc k"] show ?thesis
      by (simp add: sublist_Cons_right)
  qed
qed

lemma indexOf_nonneg: "0 \<le> indexOf s p \<longleftrightarrow> sublist p s"
  by (simp add: indexOf_def indexOfFrom_nonneg)

lemma indexOfFrom_range: "indexOfFrom k s p = - 1 \<or> int k \<le> indexOfFrom k s p"
proof (induction s arbitrary: k)
  case Nil
  then show ?case by simp
next
  case (Cons c cs)
  from Cons.IH [of "Suc k"] show ?case by auto
qed

lemma indexOfFrom_occurrence:
  "indexOfFrom k s p = int i \<Longrightarrow> k \<le> i \<and> prefix p (drop (i - k) s)"
proof (induction s arbitrary: k)
  case Nil
  then show ?case by (simp split: if_splits)
next
  case (Cons c cs)
  show ?case
  proof (cases "startsWith (c # cs) p")
    case True
    with Cons.prems show ?thesis by (simp add: startsWith_prefix)
  next
    case False
    with Cons.prems have "indexOfFrom (Suc k) cs p = int i" by simp
    from Cons.IH [OF this] have "Suc k \<le> i" "prefix p (drop (i - Suc k) cs)" by simp_all
    then show ?thesis by (simp add: drop_Cons')
  qed
qed

lemma toLowerCase_sublist:
  "sublist p (toLowerCase s) \<longleftrightarrow> (\<exists>mid. sublist mid s \<and> toLowerCase mid = p)"
proof
  assume "sublist p (toLowerCase s)"
  then obtain xs ys where "map toLowerCaseChar s = xs @ p @ ys"
    by (auto simp: sublist_def toLowerCase_def)
  then have "\<exists>us vs. s = us @ vs \<and> xs = map toLowerCaseChar us \<and>
      p @ ys = map toLowerCaseChar vs"
    by (simp only: map_eq_append_conv)
  then obtain us vs where us: "s = us @ vs" and vs: "p @ ys = map toLowerCaseChar vs"
    by blast
  from vs have "\<exists>b c. vs = b @ c \<and> p = map toLowerCaseChar b \<and> ys = map toLowerCaseChar c"
    by (simp only: append_eq_map_conv)
  then obtain b c where "vs = b @ c" "p = map toLowerCaseChar b"
    by blast
  with us have "s = us @ b @ c" "map toLowerCaseChar b = p" by simp_all
  then show "\<exists>mid. sublist mid s \<and> toLowerCase mid = p"
    by (auto simp: toLowerCase_def)
next
  assume "\<exists>mid. sublist mid s \<and> toLowerCase mid = p"
  then obtain mid ps ss where "s = ps @ mid @ ss" "toLowerCase mid = p"
    by (auto simp: sublist_def)
  then have "toLowerCase s = toLowerCase ps @ p @ toLowerCase ss"
    by (auto simp: toLowerCase_def)
  then show "sublist p (toLowerCase s)"
    by simp
qed

lemma newError_is_Error: "\<exists>m. newError x = ThrownError m"
  by (cases x) simp_all

lemma broadcast_accepted:
  assumes "postTransaction env raw = Inr resp" and "text resp = Inr reply"
    and "sublist ''transaction submitted'' (toLowerCase reply)"
  shows "broadcastTransaction env raw =
     (case fromHex env raw of
        Inl e \<Rightarrow> seq (message_of env e) (\<lambda>msg. Inl (newError msg))
      | Inr tx \<Rightarrow> Inr (toString_hex (rev (getHash env tx))))"
  using assms(3)
  by (simp add: broadcastTransaction_def assms(1,2) indexOf_nonneg split: sum.splits)

lemma broadcast_refused:
  assumes "postTransaction env raw = Inr resp" and "text resp = Inr reply"
    and "\<not> sublist ''transaction submitted'' (toLowerCase reply)"
  shows "broadcastTransaction env raw = Inl (ThrownError [])"
  using assms(3)
  by (simp add: broadcastTransaction_def assms(1,2) indexOf_nonneg)

lemma broadcast_transport_failure:
  "postTransaction env raw = Inl e \<Longrightarrow>
     broadcastTransaction env raw = seq (message_of env e) (\<lambda>msg. Inl (newError msg))"
  by (simp add: broadcastTransaction_def)

lemma rethrown_is_Error:
  "seq (message_of env x) (\<lambda>msg. Inl (newError msg)) = Inl e \<Longrightarrow> \<exists>m. e = ThrownError m"
  by (cases x) auto

lemma broadcast_never_raw:
  "broadcastTransaction env raw = Inl e \<Longrightarrow> \<exists>m. e = ThrownError m"
  by (auto simp add: broadcastTransaction_def split: sum.splits dest: rethrown_is_Error)

text \<open>The digit table is only ever read below its length.\<close>

lemma hexDigit_in_range:
  "unat (b :: 8 word) div 16 < 16 \<and> unat b mod 16 < 16 \<and>
   length ''0123456789abcdef'' = 16"
proof -
  have "unat b < 2 ^ LENGTH(8)" by (rule unsigned_less)
  then have "unat b < 256" by simp
  then show ?thesis by simp
qed

lemma length_toString_hex: "length (toString_hex bs) = 2 * length bs"
  by (induction bs) (simp_all add: toString_hex_def)

subsection \<open>The scenarios\<close>

lemma sumUTXOs_values:
  "sumUTXOs (map (\<lambda>v. \<lparr>value = v, tx_hash = h, tx_output_n = n\<rparr>) vs) = sum_list vs"
  by (simp add: sumUTXOs_def comp_def)

lemma wallet_env_reads:
  "reads_snapshot (wallet_env vs e b l h) ''SP2J'' ''SP3K'' 25 ''hello''
     (wallet_snapshot vs e b l h)"
  by (simp add: reads_snapshot_def wallet_env_def wallet_snapshot_def sumUTXOs_values)

lemma wallet_env_prepares:
  "prepareTransaction (wallet_env [1500000, 500000] 44500 100 90 120)
      ''SP2J'' ''SP3K'' 25 w ''hello''
     = Inr (PreparedTransfer (wallet_snapshot [1500000, 500000] 44500 100 90 120))"
  by (simp add: prepareTransaction_snapshot [OF wallet_env_reads] wallet_snapshot_def)

lemma wallet_env_post:
  "postTransaction (wallet_env vs e b l h) raw = Inr \<lparr>text = Inr ''Transaction submitted. ID: abc''\<rparr>"
  by (simp add: postTransaction_def wallet_env_def)

subsection \<open>Validation\<close>

text \<open>
  C1. When every read answers and the snapshot satisfies \<open>btcBalance \<ge> estimate\<close>,
  \<open>accountBalance \<ge> tokenAmount\<close> and \<open>lockTransferBlockId \<le> blockHeight\<close>,
  \<^verbatim>\<open>prepareTransaction\<close> returns the prepared transfer built from that snapshot, not
  an error; and whenever it returns a prepared transfer, that value is the snapshot
  of the reads and passes all three checks.
\<close>

theorem prepareTransaction_admission:
  "(reads_snapshot env s r a m p \<and> estimate p \<le> btcBalance p \<and>
      tokenAmount p \<le> currentAccountBalance p \<and>
      lock_transfer_block_id (accountStatus p) \<le> blockHeight p
      \<longrightarrow> prepareTransaction env s r a w m = Inr (PreparedTransfer p)) \<and>
   (prepareTransaction env s r a w m = Inr (PreparedTransfer p)
      \<longrightarrow> reads_snapshot env s r a m p \<and> estimate p \<le> btcBalance p \<and>
          tokenAmount p \<le> currentAccountBalance p \<and>
          lock_transfer_block_id (accountStatus p) \<le> blockHeight p)"
proof (rule conjI; rule impI)
  assume "reads_snapshot env s r a m p \<and> estimate p \<le> btcBalance p \<and>
      tokenAmount p \<le> currentAccountBalance p \<and>
      lock_transfer_block_id (accountStatus p) \<le> blockHeight p"
  then have rs: "reads_snapshot env s r a m p"
    and gates: "\<not> btcBalance p < estimate p" "\<not> currentAccountBalance p < tokenAmount p"
      "\<not> blockHeight p < lock_transfer_block_id (accountStatus p)"
    by simp_all
  show "prepareTransaction env s r a w m = Inr (PreparedTransfer p)"
    by (simp add: prepareTransaction_snapshot [OF rs] gates)
next
  assume ret: "prepareTransaction env s r a w m = Inr (PreparedTransfer p)"
  from prepareTransaction_returns [OF ret]
  obtain q where q: "reads_snapshot env s r a m q" ..
  from prepareTransaction_snapshot [OF q, of w] ret
  have "p = q \<and> estimate q \<le> btcBalance q \<and> tokenAmount q \<le> currentAccountBalance q \<and>
      lock_transfer_block_id (accountStatus q) \<le> blockHeight q"
    by (simp split: if_splits)
  with q show "reads_snapshot env s r a m p \<and> estimate p \<le> btcBalance p \<and>
          tokenAmount p \<le> currentAccountBalance p \<and>
          lock_transfer_block_id (accountStatus p) \<le> blockHeight p"
    by simp
qed

text \<open>
  The spec's scenario: UTXOs worth 2,000,000 and an estimate of 50,000 (44,500 plus
  the surcharge) give a prepared transfer with that estimate.
\<close>

theorem prepareTransaction_admission_witness:
  "prepareTransaction (wallet_env [1500000, 500000] 44500 100 90 120)
      ''SP2J'' ''SP3K'' 25 ''wallet_types/LEDGER'' ''hello''
     = Inr (PreparedTransfer (wallet_snapshot [1500000, 500000] 44500 100 90 120)) \<and>
   estimate (wallet_snapshot [1500000, 500000] 44500 100 90 120) = 50000 \<and>
   btcBalance (wallet_snapshot [1500000, 500000] 44500 100 90 120) = 2000000"
proof -
  let ?p = "wallet_snapshot [1500000, 500000] 44500 100 90 120"
  have gates: "estimate ?p \<le> btcBalance ?p \<and> tokenAmount ?p \<le> currentAccountBalance ?p \<and>
      lock_transfer_block_id (accountStatus ?p) \<le> blockHeight ?p"
    by (simp add: wallet_snapshot_def)
  have ret: "prepareTransaction (wallet_env [1500000, 500000] 44500 100 90 120)
      ''SP2J'' ''SP3K'' 25 ''wallet_types/LEDGER'' ''hello'' = Inr (PreparedTransfer ?p)"
    using prepareTransaction_admission [of "wallet_env [1500000, 500000] 44500 100 90 120"
        "''SP2J''" "''SP3K''" 25 "''hello''" ?p "''wallet_types/LEDGER''"]
      wallet_env_reads gates by blast
  from prepareTransaction_admission [of "wallet_env [1500000, 500000] 44500 100 90 120"
        "''SP2J''" "''SP3K''" 25 "''hello''" ?p "''wallet_types/LEDGER''"] ret
  have "estimate ?p \<le> btcBalance ?p" by blast
  with ret show ?thesis by (simp add: wallet_snapshot_def)
qed

text \<open>
  C2. When the snapshot has \<open>btcBalance < estimate\<close>, \<^verbatim>\<open>prepareTransaction\<close> returns
  the error value of type \<^verbatim>\<open>INSUFFICIENT_BTC_BALANCE\<close> carrying the estimate, the
  balance and \<^verbatim>\<open>difference = estimate - btcBalance\<close>, whatever the token balance,
  the unlock height and the chain height are.
\<close>

theorem insufficient_funding:
  assumes "reads_snapshot env s r a m p" and "btcBalance p < estimate p"
  shows "\<exists>e. prepareTransaction env s r a w m = Inr (ErrorObject e) \<and>
           error e \<and> type e = ''INSUFFICIENT_BTC_BALANCE'' \<and>
           message e = message INSUFFICIENT_BTC_BALANCE \<and>
           map_of (extra e) ''estimate'' = Some (estimate p) \<and>
           map_of (extra e) ''btcBalance'' = Some (btcBalance p) \<and>
           map_of (extra e) ''difference'' = Some (estimate p - btcBalance p)"
  using assms(2)
  by (simp add: prepareTransaction_snapshot [OF assms(1)] INSUFFICIENT_BTC_BALANCE_def)

text \<open>
  The spec's scenario: balance 10,000 against an estimate of 50,000 reports a
  difference of 40,000, here with too few tokens and a lock still in force.
\<close>

theorem insufficient_funding_witness:
  "\<exists>e. prepareTransaction (wallet_env [10000] 44500 0 200 120)
          ''SP2J'' ''SP3K'' 25 ''wallet_types/TREZOR'' ''hello'' = Inr (ErrorObject e) \<and>
        type e = ''INSUFFICIENT_BTC_BALANCE'' \<and>
        map_of (extra e) ''estimate'' = Some 50000 \<and>
        map_of (extra e) ''btcBalance'' = Some 10000 \<and>
        map_of (extra e) ''difference'' = Some 40000"
proof -
  let ?p = "wallet_snapshot [10000] 44500 0 200 120"
  have low: "btcBalance ?p < estimate ?p"
    by (simp add: wallet_snapshot_def)
  have vals: "estimate ?p = 50000" "btcBalance ?p = 10000"
    by (simp_all add: wallet_snapshot_def)
  from insufficient_funding [OF wallet_env_reads low, of "''wallet_types/TREZOR''"]
  show ?thesis
    unfolding vals by auto
qed

text \<open>
  C3. The checks run in the order funding, token sufficiency, lock status, and the
  first one that fails decides the result: a funding failure gives
  \<^verbatim>\<open>INSUFFICIENT_BTC_BALANCE\<close> (never \<^verbatim>\<open>INSUFFICIENT_STX_BALANCE\<close> or
  \<^verbatim>\<open>LOCKED_TOKENS\<close>) whatever the other two checks would say; with funding in order
  a token shortage gives \<^verbatim>\<open>INSUFFICIENT_STX_BALANCE\<close> whatever the lock status;
  \<^verbatim>\<open>LOCKED_TOKENS\<close> is returned only when the first two checks pass.
\<close>

theorem gate_precedence:
  assumes "reads_snapshot env s r a m p"
  shows "(btcBalance p < estimate p \<longrightarrow>
           (\<exists>e. prepareTransaction env s r a w m = Inr (ErrorObject e) \<and>
                type e = type INSUFFICIENT_BTC_BALANCE \<and>
                type e \<noteq> type INSUFFICIENT_STX_BALANCE \<and>
                type e \<noteq> type LOCKED_TOKENS)) \<and>
         (estimate p \<le> btcBalance p \<and> currentAccountBalance p < tokenAmount p \<longrightarrow>
           prepareTransaction env s r a w m = Inr (ErrorObject INSUFFICIENT_STX_BALANCE) \<and>
           type INSUFFICIENT_STX_BALANCE \<noteq> type LOCKED_TOKENS) \<and>
         (estimate p \<le> btcBalance p \<and> tokenAmount p \<le> currentAccountBalance p \<and>
          blockHeight p < lock_transfer_block_id (accountStatus p) \<longrightarrow>
           prepareTransaction env s r a w m = Inr (ErrorObject LOCKED_TOKENS))"
  by (simp add: prepareTransaction_snapshot [OF assms] INSUFFICIENT_BTC_BALANCE_def
      INSUFFICIENT_STX_BALANCE_def LOCKED_TOKENS_def)

text \<open>
  Three snapshots: funding and lock both failing, token balance and lock both
  failing, and the lock alone failing.
\<close>

theorem gate_precedence_witness:
  "(\<exists>e. prepareTransaction (wallet_env [10000] 44500 100 200 120)
           ''SP2J'' ''SP3K'' 25 ''wallet_types/LEDGER'' ''hello'' = Inr (ErrorObject e) \<and>
        type e = ''INSUFFICIENT_BTC_BALANCE'' \<and> type e \<noteq> ''LOCKED_TOKENS'') \<and>
   prepareTransaction (wallet_env [1500000, 500000] 44500 0 200 120)
      ''SP2J'' ''SP3K'' 25 ''wallet_types/LEDGER'' ''hello''
     = Inr (ErrorObject INSUFFICIENT_STX_BALANCE) \<and>
   prepareTransaction (wallet_env [1500000, 500000] 44500 100 200 120)
      ''SP2J'' ''SP3K'' 25 ''wallet_types/LEDGER'' ''hello''
     = Inr (ErrorObject LOCKED_TOKENS)"
proof -
  let ?p1 = "wallet_snapshot [10000] 44500 100 200 120"
  let ?p2 = "wallet_snapshot [1500000, 500000] 44500 0 200 120"
  let ?p3 = "wallet_snapshot [1500000, 500000] 44500 100 200 120"
  have h1: "btcBalance ?p1 < estimate ?p1"
    and locked1: "blockHeight ?p1 < lock_transfer_block_id (accountStatus ?p1)"
    by (simp_all add: wallet_snapshot_def)
  have h2: "estimate ?p2 \<le> btcBalance ?p2 \<and> currentAccountBalance ?p2 < tokenAmount ?p2"
    by (simp add: wallet_snapshot_def)
  have h3: "estimate ?p3 \<le> btcBalance ?p3 \<and> tokenAmount ?p3 \<le> currentAccountBalance ?p3 \<and>
      blockHeight ?p3 < lock_transfer_block_id (accountStatus ?p3)"
    by (simp add: wallet_snapshot_def)
  from gate_precedence [OF wallet_env_reads, of "[10000]" 44500 100 200 120
      "''wallet_types/LEDGER''"] h1
  have c1: "\<exists>e. prepareTransaction (wallet_env [10000] 44500 100 200 120)
           ''SP2J'' ''SP3K'' 25 ''wallet_types/LEDGER'' ''hello'' = Inr (ErrorObject e) \<and>
        type e = ''INSUFFICIENT_BTC_BALANCE'' \<and> type e \<noteq> ''LOCKED_TOKENS''"
    by (auto simp add: INSUFFICIENT_BTC_BALANCE_def LOCKED_TOKENS_def)
  from gate_precedence [OF wallet_env_reads, of "[1500000, 500000]" 44500 0 200 120
      "''wallet_types/LEDGER''"] h2
  have c2: "prepareTransaction (wallet_env [1500000, 500000] 44500 0 200 120)
      ''SP2J'' ''SP3K'' 25 ''wallet_types/LEDGER'' ''hello''
     = Inr (ErrorObject INSUFFICIENT_STX_BALANCE)"
    by blast
  from gate_precedence [OF wallet_env_reads, of "[1500000, 500000]" 44500 100 200 120
      "''wallet_types/LEDGER''"] h3
  have c3: "prepareTransaction (wallet_env [1500000, 500000] 44500 100 200 120)
      ''SP2J'' ''SP3K'' 25 ''wallet_types/LEDGER'' ''hello''
     = Inr (ErrorObject LOCKED_TOKENS)"
    by blast
  from c1 c2 c3 show ?thesis by blast
qed

subsection \<open>Broadcast\<close>

text \<open>
  C4, as amended. When the relay answers with a body that contains, in any
  capitalisation, the phrase \<^verbatim>\<open>transaction submitted\<close>, and bitcoinjs-lib parses the
  raw transaction, \<^verbatim>\<open>broadcastTransaction\<close> returns the hash of the parsed
  transaction with its bytes reversed, written in hexadecimal.
\<close>

theorem broadcast_success:
  assumes "postTransaction env raw = Inr resp" and "text resp = Inr reply"
    and "sublist mid reply" and "toLowerCase mid = ''transaction submitted''"
    and "fromHex env raw = Inr tx"
  shows "broadcastTransaction env raw = Inr (toString_hex (rev (getHash env tx)))"
proof -
  from assms(3,4) have "sublist ''transaction submitted'' (toLowerCase reply)"
    unfolding toLowerCase_sublist by blast
  from broadcast_accepted [OF assms(1,2) this] assms(5) show ?thesis by simp
qed

text \<open>
  The spec's body \<^verbatim>\<open>Transaction submitted. ID: abc\<close> and the transaction
  \<open>sample_rawTx\<close>: the result is its hash read backwards.
\<close>

theorem broadcast_success_witness:
  "broadcastTransaction (wallet_env [1500000, 500000] 44500 100 90 120) sample_rawTx
     = Inr ''2fb7d2ab4ea206f3491ae234583c124d5087b6267308288e1359a6052fc477e1''"
proof -
  have sub: "sublist ''Transaction submitted'' ''Transaction submitted. ID: abc''"
    unfolding sublist_def by (rule exI [of _ "[]"], rule exI [of _ "''. ID: abc''"]) simp
  have low: "toLowerCase ''Transaction submitted'' = ''transaction submitted''"
    by (simp add: toLowerCase_def toLowerCaseChar_def)
  have parsed: "fromHex (wallet_env [1500000, 500000] 44500 100 90 120) sample_rawTx
      = Inr sample_hash"
    by (simp add: wallet_env_def)
  have hex: "toString_hex (rev (getHash (wallet_env [1500000, 500000] 44500 100 90 120)
      sample_hash)) = ''2fb7d2ab4ea206f3491ae234583c124d5087b6267308288e1359a6052fc477e1''"
    by (simp add: wallet_env_def sample_hash_def toString_hex_def hexDigit_def)
  from broadcast_success [OF wallet_env_post _ sub low parsed] hex
  show ?thesis by simp
qed

text \<open>
  C4 as stated fails: the relay answers \<^verbatim>\<open>Transaction submitted. ID: abc\<close> to the
  string \<^verbatim>\<open>0100\<close>, which is no transaction; the parser throws, and
  \<^verbatim>\<open>broadcastTransaction\<close> fails with an \<^verbatim>\<open>Error\<close> of the parser's message.
\<close>

theorem broadcast_unparsable_counterexample:
  "postTransaction (wallet_env [1500000, 500000] 44500 100 90 120) ''0100''
     = Inr \<lparr>text = Inr ''Transaction submitted. ID: abc''\<rparr> \<and>
   sublist ''transaction submitted'' (toLowerCase ''Transaction submitted. ID: abc'') \<and>
   fromHex (wallet_env [1500000, 500000] 44500 100 90 120) ''0100''
     = Inl (ThrownError ''Index out of range'') \<and>
   broadcastTransaction (wallet_env [1500000, 500000] 44500 100 90 120) ''0100''
     = Inl (ThrownError ''Index out of range'')"
proof -
  let ?env = "wallet_env [1500000, 500000] 44500 100 90 120"
  have "toLowerCase ''Transaction submitted. ID: abc''
      = [] @ ''transaction submitted'' @ ''. id: abc''"
    by (simp add: toLowerCase_def toLowerCaseChar_def)
  then have sub: "sublist ''transaction submitted''
      (toLowerCase ''Transaction submitted. ID: abc'')"
    unfolding sublist_def by blast
  have body: "text \<lparr>text = Inr ''Transaction submitted. ID: abc''\<rparr>
      = Inr ''Transaction submitted. ID: abc''"
    by simp
  have unparsed: "fromHex ?env ''0100'' = Inl (ThrownError ''Index out of range'')"
    by (simp add: wallet_env_def sample_rawTx_def)
  from broadcast_accepted [where raw = "''0100''", OF wallet_env_post body sub] unparsed
  have "broadcastTransaction ?env ''0100'' = Inl (ThrownError ''Index out of range'')"
    by simp
  with wallet_env_post sub unparsed show ?thesis by simp
qed

text \<open>
  C5. The spec asks that a body without the phrase makes \<^verbatim>\<open>broadcastTransaction\<close>
  fail with an error that carries the body. The source rejects with the string
  \<^verbatim>\<open>Broadcast transaction failed with message: ..\<close>, and its handler then reads the
  \<^verbatim>\<open>message\<close> property of that string, which is undefined: what the caller gets is
  an \<^verbatim>\<open>Error\<close> with an empty message. Evaluated at the body
  \<^verbatim>\<open>Invalid transaction format\<close>:
\<close>

theorem broadcast_rejection_drops_body:
  "broadcastTransaction refusing_env ''0100'' = Inl (ThrownError [])"
  by (simp add: broadcastTransaction_def postTransaction_def refusing_env_def wallet_env_def
      indexOf_def toLowerCase_def toLowerCaseChar_def message_of_def)

subsection \<open>Assembly and signing\<close>

text \<open>
  C6, as amended. When validation has returned a prepared transfer and the transfer
  builder, called with the selected signer, throws a value other than
  \<^verbatim>\<open>undefined\<close> and \<^verbatim>\<open>null\<close>, \<^verbatim>\<open>generateTransaction\<close> does not throw: it
  returns the \<^verbatim>\<open>TRANSACTION_ERROR\<close> value, whose message is the message of the thrown
  value when that is an \<^verbatim>\<open>Error\<close>, and the default text
  \<^verbatim>\<open>Token transfer cannot be safely sent.\<close> when it is a string.
\<close>

theorem generateTransaction_catches:
  assumes "prepareTransaction env s r a w m = Inr (PreparedTransfer p)"
    and "makeTokenTransfer env (recipientBtcAddress p) (tokenType p) (tokenAmount p) m
           (if w = LEDGER (WALLET_TYPES env) then LedgerSigner (PATH env) Transport
            else TrezorSigner (PATH env) (senderBtcAddress p)) = Inl e"
    and "e \<noteq> ThrownUndefined" and "e \<noteq> ThrownNull"
  shows "\<exists>res. generateTransaction env s r a w m = Inr (ErrorResult res) \<and>
           res = TRANSACTION_ERROR (case e of ThrownError msg \<Rightarrow> Some msg | _ \<Rightarrow> None) \<and>
           error res \<and> type res = ''TRANSACTION_ERROR'' \<and>
           (\<forall>msg. e = ThrownError msg \<longrightarrow> message res = msg) \<and>
           (\<forall>t. e = ThrownString t \<longrightarrow> message res = ''Token transfer cannot be safely sent.'')"
proof -
  let ?res = "TRANSACTION_ERROR (case e of ThrownError msg \<Rightarrow> Some msg | _ \<Rightarrow> None)"
  from generateTransaction_prepared [OF assms(1)] assms(2)
  have "generateTransaction env s r a w m
      = seq (message_of env e) (\<lambda>msg. Inr (ErrorResult (TRANSACTION_ERROR msg)))"
    by simp
  with message_of_read [OF assms(3,4), of env]
  have returned: "generateTransaction env s r a w m = Inr (ErrorResult ?res)"
    by simp
  have shape: "error ?res \<and> type ?res = ''TRANSACTION_ERROR'' \<and>
      (\<forall>msg. e = ThrownError msg \<longrightarrow> message ?res = msg) \<and>
      (\<forall>t. e = ThrownString t \<longrightarrow> message ?res = ''Token transfer cannot be safely sent.'')"
    by (simp add: TRANSACTION_ERROR_def)
  from returned shape show ?thesis by blast
qed

text \<open>A builder that throws \<^verbatim>\<open>Error("Not enough UTXOs to fund")\<close> while signing with a Ledger.\<close>

theorem generateTransaction_catches_witness:
  "generateTransaction underfunded_env ''SP2J'' ''SP3K'' 25 ''wallet_types/LEDGER'' ''hello''
     = Inr (ErrorResult (TRANSACTION_ERROR (Some ''Not enough UTXOs to fund''))) \<and>
   message (TRANSACTION_ERROR (Some ''Not enough UTXOs to fund'')) = ''Not enough UTXOs to fund''"
proof -
  let ?p = "wallet_snapshot [1500000, 500000] 44500 100 90 120"
  have prep: "prepareTransaction underfunded_env ''SP2J'' ''SP3K'' 25 ''wallet_types/LEDGER''
      ''hello'' = Inr (PreparedTransfer ?p)"
    unfolding underfunded_env_def prepareTransaction_signing_free
    by (rule wallet_env_prepares)
  have fails: "makeTokenTransfer underfunded_env (recipientBtcAddress ?p) (tokenType ?p)
      (tokenAmount ?p) ''hello''
      (if ''wallet_types/LEDGER'' = LEDGER (WALLET_TYPES underfunded_env)
       then LedgerSigner (PATH underfunded_env) Transport
       else TrezorSigner (PATH underfunded_env) (senderBtcAddress ?p))
      = Inl (ThrownError ''Not enough UTXOs to fund'')"
    by (simp add: underfunded_env_def)
  have kind: "ThrownError ''Not enough UTXOs to fund'' \<noteq> ThrownUndefined"
    "ThrownError ''Not enough UTXOs to fund'' \<noteq> ThrownNull"
    by simp_all
  from generateTransaction_catches [OF prep fails kind]
  show ?thesis by (simp add: TRANSACTION_ERROR_def)
qed

text \<open>
  C6 as stated fails twice. A builder that rejects with the string
  \<^verbatim>\<open>Action cancelled\<close> is caught, but the result carries the default message, not
  anything of the cause. A builder that rejects with \<^verbatim>\<open>undefined\<close> is caught too,
  but the handler's read of \<^verbatim>\<open>e.message\<close> throws a \<^verbatim>\<open>TypeError\<close>, and that
  leaves \<^verbatim>\<open>generateTransaction\<close>.
\<close>

theorem generateTransaction_message_counterexample:
  "makeTokenTransfer cancelling_env ''1SP3K'' ''STACKS'' 25 ''hello''
      (TrezorSigner ''m/44/5757/0/0/0'' ''1SP2J'') = Inl (ThrownString ''Action cancelled'') \<and>
   generateTransaction cancelling_env ''SP2J'' ''SP3K'' 25 ''wallet_types/TREZOR'' ''hello''
     = Inr (ErrorResult (TRANSACTION_ERROR None)) \<and>
   message (TRANSACTION_ERROR None) = ''Token transfer cannot be safely sent.'' \<and>
   message (TRANSACTION_ERROR None) \<noteq> ''Action cancelled'' \<and>
   makeTokenTransfer reasonless_env ''1SP3K'' ''STACKS'' 25 ''hello''
      (TrezorSigner ''m/44/5757/0/0/0'' ''1SP2J'') = Inl ThrownUndefined \<and>
   generateTransaction reasonless_env ''SP2J'' ''SP3K'' 25 ''wallet_types/TREZOR'' ''hello''
     = Inl (ThrownError ''Cannot read property of undefined or null'')"
proof -
  let ?p = "wallet_snapshot [1500000, 500000] 44500 100 90 120"
  have "prepareTransaction cancelling_env ''SP2J'' ''SP3K'' 25 ''wallet_types/TREZOR'' ''hello''
     = Inr (PreparedTransfer ?p)"
    unfolding cancelling_env_def prepareTransaction_signing_free
    by (rule wallet_env_prepares)
  from generateTransaction_prepared [OF this]
  have c1: "generateTransaction cancelling_env ''SP2J'' ''SP3K'' 25 ''wallet_types/TREZOR''
      ''hello'' = Inr (ErrorResult (TRANSACTION_ERROR None))"
    by (simp add: cancelling_env_def wallet_env_def)
  have "prepareTransaction reasonless_env ''SP2J'' ''SP3K'' 25 ''wallet_types/TREZOR'' ''hello''
     = Inr (PreparedTransfer ?p)"
    unfolding reasonless_env_def prepareTransaction_signing_free
    by (rule wallet_env_prepares)
  from generateTransaction_prepared [OF this]
  have c2: "generateTransaction reasonless_env ''SP2J'' ''SP3K'' 25 ''wallet_types/TREZOR''
      ''hello'' = Inl (ThrownError ''Cannot read property of undefined or null'')"
    by (simp add: reasonless_env_def wallet_env_def)
  from c1 c2 show ?thesis
    by (simp add: cancelling_env_def reasonless_env_def wallet_env_def TRANSACTION_ERROR_def)
qed

text \<open>
  C7. With distinct constants \<^verbatim>\<open>WALLET_TYPES.LEDGER\<close> and \<^verbatim>\<open>WALLET_TYPES.TREZOR\<close>:
  for \<^verbatim>\<open>walletType = LEDGER\<close> the transfer builder is called with
  \<^verbatim>\<open>new LedgerSigner(PATH, Transport)\<close>, and the result does not depend on what the
  builder would do with any Trezor signer; for \<^verbatim>\<open>walletType = TREZOR\<close> it is called
  with \<^verbatim>\<open>new TrezorSigner(PATH, senderBtcAddress)\<close>, and the result does not depend on
  what the builder would do with any Ledger signer.
\<close>

theorem signer_selection:
  assumes "LEDGER (WALLET_TYPES env) \<noteq> TREZOR (WALLET_TYPES env)"
  shows "(w = LEDGER (WALLET_TYPES env) \<longrightarrow>
          (prepareTransaction env s r a w m = Inr (PreparedTransfer p) \<longrightarrow>
             generateTransaction env s r a w m =
               (case makeTokenTransfer env (recipientBtcAddress p) (tokenType p)
                       (tokenAmount p) m (LedgerSigner (PATH env) Transport) of
                  Inl e \<Rightarrow>
                    seq (message_of env e) (\<lambda>msg. Inr (ErrorResult (TRANSACTION_ERROR msg)))
                | Inr raw \<Rightarrow> Inr (SignedTransaction \<lparr>fee = estimate p, rawTx = raw\<rparr>))) \<and>
          ((\<forall>rb tt ta mm pa tr. f rb tt ta mm (LedgerSigner pa tr)
               = makeTokenTransfer env rb tt ta mm (LedgerSigner pa tr)) \<longrightarrow>
             generateTransaction (env\<lparr>makeTokenTransfer := f\<rparr>) s r a w m
               = generateTransaction env s r a w m)) \<and>
         (w = TREZOR (WALLET_TYPES env) \<longrightarrow>
          (prepareTransaction env s r a w m = Inr (PreparedTransfer p) \<longrightarrow>
             generateTransaction env s r a w m =
               (case makeTokenTransfer env (recipientBtcAddress p) (tokenType p)
                       (tokenAmount p) m (TrezorSigner (PATH env) (senderBtcAddress p)) of
                  Inl e \<Rightarrow>
                    seq (message_of env e) (\<lambda>msg. Inr (ErrorResult (TRANSACTION_ERROR msg)))
                | Inr raw \<Rightarrow> Inr (SignedTransaction \<lparr>fee = estimate p, rawTx = raw\<rparr>))) \<and>
          ((\<forall>rb tt ta mm pa ad. g rb tt ta mm (TrezorSigner pa ad)
               = makeTokenTransfer env rb tt ta mm (TrezorSigner pa ad)) \<longrightarrow>
             generateTransaction (env\<lparr>makeTokenTransfer := g\<rparr>) s r a w m
               = generateTransaction env s r a w m))"
proof (rule conjI; rule impI)
  assume w: "w = LEDGER (WALLET_TYPES env)"
  show "(prepareTransaction env s r a w m = Inr (PreparedTransfer p) \<longrightarrow>
             generateTransaction env s r a w m =
               (case makeTokenTransfer env (recipientBtcAddress p) (tokenType p)
                       (tokenAmount p) m (LedgerSigner (PATH env) Transport) of
                  Inl e \<Rightarrow>
                    seq (message_of env e) (\<lambda>msg. Inr (ErrorResult (TRANSACTION_ERROR msg)))
                | Inr raw \<Rightarrow> Inr (SignedTransaction \<lparr>fee = estimate p, rawTx = raw\<rparr>))) \<and>
          ((\<forall>rb tt ta mm pa tr. f rb tt ta mm (LedgerSigner pa tr)
               = makeTokenTransfer env rb tt ta mm (LedgerSigner pa tr)) \<longrightarrow>
             generateTransaction (env\<lparr>makeTokenTransfer := f\<rparr>) s r a w m
               = generateTransaction env s r a w m)"
    using w generateTransaction_prepared [of env s r a w m p]
      generateTransaction_ledger_only [of w env f s r a m]
    by simp
next
  assume "w = TREZOR (WALLET_TYPES env)"
  with assms have w: "w \<noteq> LEDGER (WALLET_TYPES env)" by simp
  show "(prepareTransaction env s r a w m = Inr (PreparedTransfer p) \<longrightarrow>
             generateTransaction env s r a w m =
               (case makeTokenTransfer env (recipientBtcAddress p) (tokenType p)
                       (tokenAmount p) m (TrezorSigner (PATH env) (senderBtcAddress p)) of
                  Inl e \<Rightarrow>
                    seq (message_of env e) (\<lambda>msg. Inr (ErrorResult (TRANSACTION_ERROR msg)))
                | Inr raw \<Rightarrow> Inr (SignedTransaction \<lparr>fee = estimate p, rawTx = raw\<rparr>))) \<and>
          ((\<forall>rb tt ta mm pa ad. g rb tt ta mm (TrezorSigner pa ad)
               = makeTokenTransfer env rb tt ta mm (TrezorSigner pa ad)) \<longrightarrow>
             generateTransaction (env\<lparr>makeTokenTransfer := g\<rparr>) s r a w m
               = generateTransaction env s r a w m)"
    using w generateTransaction_prepared [of env s r a w m p]
      generateTransaction_trezor_only [of w env g s r a m]
    by simp
qed

text \<open>
  Builders that throw as soon as they see the other variant: both requests are signed.
\<close>

theorem signer_selection_witness:
  "generateTransaction
      ((wallet_env [1500000, 500000] 44500 100 90 120)\<lparr>makeTokenTransfer := ledger_only\<rparr>)
      ''SP2J'' ''SP3K'' 25 ''wallet_types/LEDGER'' ''hello''
     = Inr (SignedTransaction \<lparr>fee = 50000, rawTx = ''0100''\<rparr>) \<and>
   generateTransaction
      ((wallet_env [1500000, 500000] 44500 100 90 120)\<lparr>makeTokenTransfer := trezor_only\<rparr>)
      ''SP2J'' ''SP3K'' 25 ''wallet_types/TREZOR'' ''hello''
     = Inr (SignedTransaction \<lparr>fee = 50000, rawTx = ''0200''\<rparr>)"
proof -
  let ?env = "wallet_env [1500000, 500000] 44500 100 90 120"
  let ?p = "wallet_snapshot [1500000, 500000] 44500 100 90 120"
  have distinct: "LEDGER (WALLET_TYPES ?env) \<noteq> TREZOR (WALLET_TYPES ?env)"
    by (simp add: wallet_env_def)
  have wl: "''wallet_types/LEDGER'' = LEDGER (WALLET_TYPES ?env)"
    and wt: "''wallet_types/TREZOR'' = TREZOR (WALLET_TYPES ?env)"
    by (simp_all add: wallet_env_def)
  have fl: "\<forall>rb tt ta mm pa tr. ledger_only rb tt ta mm (LedgerSigner pa tr)
      = makeTokenTransfer ?env rb tt ta mm (LedgerSigner pa tr)"
    by (simp add: ledger_only_def wallet_env_def)
  have ft: "\<forall>rb tt ta mm pa ad. trezor_only rb tt ta mm (TrezorSigner pa ad)
      = makeTokenTransfer ?env rb tt ta mm (TrezorSigner pa ad)"
    by (simp add: trezor_only_def wallet_env_def)
  have ml: "makeTokenTransfer ?env (recipientBtcAddress ?p) (tokenType ?p) (tokenAmount ?p)
      ''hello'' (LedgerSigner (PATH ?env) Transport) = Inr ''0100''"
    and mt: "makeTokenTransfer ?env (recipientBtcAddress ?p) (tokenType ?p) (tokenAmount ?p)
      ''hello'' (TrezorSigner (PATH ?env) (senderBtcAddress ?p)) = Inr ''0200''"
    by (simp_all add: wallet_env_def)
  have fee: "estimate ?p = 50000"
    by (simp add: wallet_snapshot_def)
  note sel = signer_selection [OF distinct, where s = "''SP2J''" and r = "''SP3K''"
      and a = 25 and m = "''hello''" and p = ?p and f = ledger_only and g = trezor_only]
  from sel [of "''wallet_types/LEDGER''"] wl fl ml fee
    wallet_env_prepares [of "''wallet_types/LEDGER''"]
  have c1: "generateTransaction (?env\<lparr>makeTokenTransfer := ledger_only\<rparr>)
      ''SP2J'' ''SP3K'' 25 ''wallet_types/LEDGER'' ''hello''
     = Inr (SignedTransaction \<lparr>fee = 50000, rawTx = ''0100''\<rparr>)"
    by simp
  from sel [of "''wallet_types/TREZOR''"] wt ft mt fee
    wallet_env_prepares [of "''wallet_types/TREZOR''"]
  have c2: "generateTransaction (?env\<lparr>makeTokenTransfer := trezor_only\<rparr>)
      ''SP2J'' ''SP3K'' 25 ''wallet_types/TREZOR'' ''hello''
     = Inr (SignedTransaction \<lparr>fee = 50000, rawTx = ''0200''\<rparr>)"
    by simp
  from c1 c2 show ?thesis ..
qed




text \<open>
  C9. Neither \<^verbatim>\<open>prepareTransaction\<close> nor \<^verbatim>\<open>generateTransaction\<close> ever returns an
  error value of type \<^verbatim>\<open>PENDING_CONFIRMATIONS\<close>, whatever the collaborators answer.
\<close>

theorem pending_confirmations_unreachable:
  "(prepareTransaction env s r a w m = Inr (ErrorObject e)
      \<longrightarrow> type e \<noteq> type PENDING_CONFIRMATIONS) \<and>
   (generateTransaction env s r a w m = Inr (ErrorResult e')
      \<longrightarrow> type e' \<noteq> type PENDING_CONFIRMATIONS)"
proof (rule conjI; rule impI)
  assume "prepareTransaction env s r a w m = Inr (ErrorObject e)"
  from prepareTransaction_error_object [OF this]
  show "type e \<noteq> type PENDING_CONFIRMATIONS"
    by (auto simp add: PENDING_CONFIRMATIONS_def INSUFFICIENT_STX_BALANCE_def LOCKED_TOKENS_def)
next
  assume "generateTransaction env s r a w m = Inr (ErrorResult e')"
  from generateTransaction_error_result [OF this]
  show "type e' \<noteq> type PENDING_CONFIRMATIONS"
  proof
    assume "prepareTransaction env s r a w m = Inr (ErrorObject e')"
    from prepareTransaction_error_object [OF this]
    show ?thesis
      by (auto simp add: PENDING_CONFIRMATIONS_def INSUFFICIENT_STX_BALANCE_def
          LOCKED_TOKENS_def)
  next
    assume "\<exists>x. e' = TRANSACTION_ERROR x"
    then show ?thesis
      by (auto simp add: PENDING_CONFIRMATIONS_def TRANSACTION_ERROR_def)
  qed
qed

text \<open>A locked account: both functions return \<^verbatim>\<open>LOCKED_TOKENS\<close>.\<close>

theorem pending_confirmations_unreachable_witness:
  "prepareTransaction (wallet_env [1500000, 500000] 44500 100 200 120)
      ''SP2J'' ''SP3K'' 25 ''wallet_types/LEDGER'' ''hello'' = Inr (ErrorObject LOCKED_TOKENS) \<and>
   generateTransaction (wallet_env [1500000, 500000] 44500 100 200 120)
      ''SP2J'' ''SP3K'' 25 ''wallet_types/LEDGER'' ''hello'' = Inr (ErrorResult LOCKED_TOKENS) \<and>
   type LOCKED_TOKENS \<noteq> type PENDING_CONFIRMATIONS"
proof -
  let ?env = "wallet_env [1500000, 500000] 44500 100 200 120"
  have prep: "prepareTransaction ?env ''SP2J'' ''SP3K'' 25 ''wallet_types/LEDGER'' ''hello''
      = Inr (ErrorObject LOCKED_TOKENS)"
    by (simp add: prepareTransaction_snapshot [OF wallet_env_reads] wallet_snapshot_def)
  from generateTransaction_error [OF this]
  have gen: "generateTransaction ?env ''SP2J'' ''SP3K'' 25 ''wallet_types/LEDGER'' ''hello''
      = Inr (ErrorResult LOCKED_TOKENS)" .
  from pending_confirmations_unreachable [of ?env "''SP2J''" "''SP3K''" 25
      "''wallet_types/LEDGER''" "''hello''" LOCKED_TOKENS LOCKED_TOKENS] prep gen
  show ?thesis by simp
qed

text \<open>
  C10. Every \<^verbatim>\<open>walletType\<close> other than \<^verbatim>\<open>WALLET_TYPES.LEDGER\<close>, valid or not, makes
  \<^verbatim>\<open>generateTransaction\<close> call the transfer builder with
  \<^verbatim>\<open>new TrezorSigner(PATH, senderBtcAddress)\<close>; the request is handled exactly as
  the one with \<^verbatim>\<open>walletType = TREZOR\<close>, so it is not rejected before signing.
\<close>

theorem non_ledger_selects_trezor:
  assumes "w \<noteq> LEDGER (WALLET_TYPES env)"
  shows "(prepareTransaction env s r a w m = Inr (PreparedTransfer p) \<longrightarrow>
            generateTransaction env s r a w m =
              (case makeTokenTransfer env (recipientBtcAddress p) (tokenType p)
                      (tokenAmount p) m (TrezorSigner (PATH env) (senderBtcAddress p)) of
                 Inl e \<Rightarrow>
                   seq (message_of env e) (\<lambda>msg. Inr (ErrorResult (TRANSACTION_ERROR msg)))
               | Inr raw \<Rightarrow> Inr (SignedTransaction \<lparr>fee = estimate p, rawTx = raw\<rparr>))) \<and>
         (TREZOR (WALLET_TYPES env) \<noteq> LEDGER (WALLET_TYPES env) \<longrightarrow>
            generateTransaction env s r a w m
              = generateTransaction env s r a (TREZOR (WALLET_TYPES env)) m)"
proof (rule conjI; rule impI)
  assume "prepareTransaction env s r a w m = Inr (PreparedTransfer p)"
  from generateTransaction_prepared [OF this] assms
  show "generateTransaction env s r a w m =
              (case makeTokenTransfer env (recipientBtcAddress p) (tokenType p)
                      (tokenAmount p) m (TrezorSigner (PATH env) (senderBtcAddress p)) of
                 Inl e \<Rightarrow>
                   seq (message_of env e) (\<lambda>msg. Inr (ErrorResult (TRANSACTION_ERROR msg)))
               | Inr raw \<Rightarrow> Inr (SignedTransaction \<lparr>fee = estimate p, rawTx = raw\<rparr>))"
    by simp
next
  assume "TREZOR (WALLET_TYPES env) \<noteq> LEDGER (WALLET_TYPES env)"
  with assms show "generateTransaction env s r a w m
              = generateTransaction env s r a (TREZOR (WALLET_TYPES env)) m"
    by (intro generateTransaction_walletType) simp
qed

text \<open>The wallet type \<^verbatim>\<open>no such wallet\<close> is signed by the Trezor variant.\<close>

theorem non_ledger_selects_trezor_witness:
  "generateTransaction
      ((wallet_env [1500000, 500000] 44500 100 90 120)\<lparr>makeTokenTransfer := trezor_only\<rparr>)
      ''SP2J'' ''SP3K'' 25 ''no such wallet'' ''hello''
     = Inr (SignedTransaction \<lparr>fee = 50000, rawTx = ''0200''\<rparr>) \<and>
   generateTransaction
      ((wallet_env [1500000, 500000] 44500 100 90 120)\<lparr>makeTokenTransfer := trezor_only\<rparr>)
      ''SP2J'' ''SP3K'' 25 ''no such wallet'' ''hello''
     = generateTransaction
      ((wallet_env [1500000, 500000] 44500 100 90 120)\<lparr>makeTokenTransfer := trezor_only\<rparr>)
      ''SP2J'' ''SP3K'' 25 ''wallet_types/TREZOR'' ''hello''"
proof -
  let ?env = "(wallet_env [1500000, 500000] 44500 100 90 120)\<lparr>makeTokenTransfer := trezor_only\<rparr>"
  let ?p = "wallet_snapshot [1500000, 500000] 44500 100 90 120"
  have other: "''no such wallet'' \<noteq> LEDGER (WALLET_TYPES ?env)"
    and distinct: "TREZOR (WALLET_TYPES ?env) \<noteq> LEDGER (WALLET_TYPES ?env)"
    and wt: "TREZOR (WALLET_TYPES ?env) = ''wallet_types/TREZOR''"
    by (simp_all add: wallet_env_def)
  have prep: "prepareTransaction ?env ''SP2J'' ''SP3K'' 25 ''no such wallet'' ''hello''
      = Inr (PreparedTransfer ?p)"
    unfolding prepareTransaction_signing_free by (rule wallet_env_prepares)
  have signs: "makeTokenTransfer ?env (recipientBtcAddress ?p) (tokenType ?p) (tokenAmount ?p)
      ''hello'' (TrezorSigner (PATH ?env) (senderBtcAddress ?p)) = Inr ''0200''"
    by (simp add: trezor_only_def)
  have fee: "estimate ?p = 50000"
    by (simp add: wallet_snapshot_def)
  note sel = non_ledger_selects_trezor [OF other, of "''SP2J''" "''SP3K''" 25 "''hello''" ?p]
  from sel prep signs fee
  have c1: "generateTransaction ?env ''SP2J'' ''SP3K'' 25 ''no such wallet'' ''hello''
     = Inr (SignedTransaction \<lparr>fee = 50000, rawTx = ''0200''\<rparr>)"
    by simp
  from sel distinct
  have "generateTransaction ?env ''SP2J'' ''SP3K'' 25 ''no such wallet'' ''hello''
     = generateTransaction ?env ''SP2J'' ''SP3K'' 25 (TREZOR (WALLET_TYPES ?env)) ''hello''"
    by blast
  then have c2: "generateTransaction ?env ''SP2J'' ''SP3K'' 25 ''no such wallet'' ''hello''
     = generateTransaction ?env ''SP2J'' ''SP3K'' 25 ''wallet_types/TREZOR'' ''hello''"
    unfolding wt .
  from c1 c2 show ?thesis ..
qed

end
